theory Spec2Isabelle
  imports Complex_Main
begin

section \<open>Text\<close>

text \<open>
  A Python \<open>str\<close> is a sequence of Unicode code points; it is modelled as the list of
  its code points. The keywords and replies of the responder are Cyrillic, so each
  literal of the source is written out as its code points, with a transliteration beside it.
\<close>

type_synonym ustr = "nat list"

definition starts_with :: "ustr \<Rightarrow> ustr \<Rightarrow> bool" where
  "starts_with text sub = (take (length sub) text = sub)"

text \<open>\<open>str_in sub text\<close> is Python's \<open>sub in text\<close> on strings: \<open>sub\<close> occurs in
  \<open>text\<close> as a contiguous run.\<close>

fun str_in :: "ustr \<Rightarrow> ustr \<Rightarrow> bool" where
  "str_in sub [] = (sub = [])"
| "str_in sub (c # cs) = (starts_with (c # cs) sub \<or> str_in sub cs)"

text \<open>
  \<open>str.isspace\<close> per code point (the characters Python's \<open>str.strip()\<close> removes),
  and \<open>str.strip\<close>.
\<close>

definition is_space :: "nat \<Rightarrow> bool" where
  "is_space c = ((9 \<le> c \<and> c \<le> 13) \<or> (28 \<le> c \<and> c \<le> 32) \<or> c = 133 \<or> c = 160
     \<or> c = 5760 \<or> (8192 \<le> c \<and> c \<le> 8202) \<or> c = 8232 \<or> c = 8233 \<or> c = 8239
     \<or> c = 8287 \<or> c = 12288)"

definition strip :: "ustr \<Rightarrow> ustr" where
  "strip s = rev (dropWhile is_space (rev (dropWhile is_space s)))"

text \<open>
  A fragment of \<open>str.lower\<close>, used to run the responder on concrete inputs: basic Latin
  and the Cyrillic block; every other code point is left as it is. The responder itself
  takes the lowercasing function as a parameter, so what is proved about it holds for
  Python's full \<open>str.lower\<close> as well.
\<close>

definition lower_cp :: "nat \<Rightarrow> nat" where
  "lower_cp c = (if 65 \<le> c \<and> c \<le> 90 then c + 32
                 else if 1040 \<le> c \<and> c \<le> 1071 then c + 32
                 else if 1024 \<le> c \<and> c \<le> 1039 then c + 80
                 else c)"

definition lower_basic :: "ustr \<Rightarrow> ustr" where
  "lower_basic s = map lower_cp s"

section \<open>The intent responder (app.py, generate\_bot\_reply)\<close>

subsection \<open>String literals of the source\<close>

definition kw_privet :: ustr where
  \<comment> \<open>"privet"\<close>
  "kw_privet = [1087, 1088, 1080, 1074, 1077, 1090]"

definition kw_zdravstvuj :: ustr where
  \<comment> \<open>"zdravstvuj"\<close>
  "kw_zdravstvuj = [1079, 1076, 1088, 1072, 1074, 1089, 1090, 1074, 1091, 1081]"

definition kw_hello :: ustr where
  \<comment> \<open>"hello"\<close>
  "kw_hello = [104, 101, 108, 108, 111]"

definition kw_hi :: ustr where
  \<comment> \<open>"hi"\<close>
  "kw_hi = [104, 105]"

definition kw_dobryj_den :: ustr where
  \<comment> \<open>"dobryj den"\<close>
  "kw_dobryj_den = [1076, 1086, 1073, 1088, 1099, 1081, 32, 1076, 1077, 1085, 1100]"

definition kw_dobryj_vecher :: ustr where
  \<comment> \<open>"dobryj vecher"\<close>
  "kw_dobryj_vecher = [1076, 1086, 1073, 1088, 1099, 1081, 32, 1074, 1077, 1095, 1077,
                    1088]"

definition kw_dobroe_utro :: ustr where
  \<comment> \<open>"dobroe utro"\<close>
  "kw_dobroe_utro = [1076, 1086, 1073, 1088, 1086, 1077, 32, 1091, 1090, 1088, 1086]"

definition kw_vremya :: ustr where
  \<comment> \<open>"vremya"\<close>
  "kw_vremya = [1074, 1088, 1077, 1084, 1103]"

definition kw_kotoryj_chas :: ustr where
  \<comment> \<open>"kotoryj chas"\<close>
  "kw_kotoryj_chas = [1082, 1086, 1090, 1086, 1088, 1099, 1081, 32, 1095, 1072, 1089]"

definition kw_data :: ustr where
  \<comment> \<open>"data"\<close>
  "kw_data = [1076, 1072, 1090, 1072]"

definition kw_kakoe_chislo :: ustr where
  \<comment> \<open>"kakoe chislo"\<close>
  "kw_kakoe_chislo = [1082, 1072, 1082, 1086, 1077, 32, 1095, 1080, 1089, 1083, 1086]"

definition kw_kakoj_den :: ustr where
  \<comment> \<open>"kakoj den"\<close>
  "kw_kakoj_den = [1082, 1072, 1082, 1086, 1081, 32, 1076, 1077, 1085, 1100]"

definition kw_chislo :: ustr where
  \<comment> \<open>"chislo"\<close>
  "kw_chislo = [1095, 1080, 1089, 1083, 1086]"

definition kw_pogoda :: ustr where
  \<comment> \<open>"pogoda"\<close>
  "kw_pogoda = [1087, 1086, 1075, 1086, 1076, 1072]"

definition kw_dozhd :: ustr where
  \<comment> \<open>"dozhd"\<close>
  "kw_dozhd = [1076, 1086, 1078, 1076, 1100]"

definition kw_solnce :: ustr where
  \<comment> \<open>"solnce"\<close>
  "kw_solnce = [1089, 1086, 1083, 1085, 1094, 1077]"

definition kw_pomosch :: ustr where
  \<comment> \<open>"pomosch"\<close>
  "kw_pomosch = [1087, 1086, 1084, 1086, 1097, 1100]"

definition kw_help :: ustr where
  \<comment> \<open>"help"\<close>
  "kw_help = [104, 101, 108, 112]"

definition kw_chto_ty_umeesh :: ustr where
  \<comment> \<open>"chto ty umeesh"\<close>
  "kw_chto_ty_umeesh = [1095, 1090, 1086, 32, 1090, 1099, 32, 1091, 1084, 1077, 1077,
                     1096, 1100]"

definition kw_funkcii :: ustr where
  \<comment> \<open>"funkcii"\<close>
  "kw_funkcii = [1092, 1091, 1085, 1082, 1094, 1080, 1080]"

definition kw_spasibo :: ustr where
  \<comment> \<open>"spasibo"\<close>
  "kw_spasibo = [1089, 1087, 1072, 1089, 1080, 1073, 1086]"

definition kw_blagodaryu :: ustr where
  \<comment> \<open>"blagodaryu"\<close>
  "kw_blagodaryu = [1073, 1083, 1072, 1075, 1086, 1076, 1072, 1088, 1102]"

definition kw_thanks :: ustr where
  \<comment> \<open>"thanks"\<close>
  "kw_thanks = [116, 104, 97, 110, 107, 115]"

definition kw_thank_you :: ustr where
  \<comment> \<open>"thank you"\<close>
  "kw_thank_you = [116, 104, 97, 110, 107, 32, 121, 111, 117]"

definition kw_poka :: ustr where
  \<comment> \<open>"poka"\<close>
  "kw_poka = [1087, 1086, 1082, 1072]"

definition kw_do_svidaniya :: ustr where
  \<comment> \<open>"do svidaniya"\<close>
  "kw_do_svidaniya = [1076, 1086, 32, 1089, 1074, 1080, 1076, 1072, 1085, 1080, 1103]"

definition kw_bye :: ustr where
  \<comment> \<open>"bye"\<close>
  "kw_bye = [98, 121, 101]"

definition kw_goodbye :: ustr where
  \<comment> \<open>"goodbye"\<close>
  "kw_goodbye = [103, 111, 111, 100, 98, 121, 101]"

definition kw_uvidimsya :: ustr where
  \<comment> \<open>"uvidimsya"\<close>
  "kw_uvidimsya = [1091, 1074, 1080, 1076, 1080, 1084, 1089, 1103]"

definition kw_kto_ty :: ustr where
  \<comment> \<open>"kto ty"\<close>
  "kw_kto_ty = [1082, 1090, 1086, 32, 1090, 1099]"

definition kw_chto_ty :: ustr where
  \<comment> \<open>"chto ty"\<close>
  "kw_chto_ty = [1095, 1090, 1086, 32, 1090, 1099]"

definition kw_kak_tebya_zovut :: ustr where
  \<comment> \<open>"kak tebya zovut"\<close>
  "kw_kak_tebya_zovut = [1082, 1072, 1082, 32, 1090, 1077, 1073, 1103, 32, 1079, 1086,
                      1074, 1091, 1090]"

definition kw_imya :: ustr where
  \<comment> \<open>"imya"\<close>
  "kw_imya = [1080, 1084, 1103]"

definition kw_vozrast :: ustr where
  \<comment> \<open>"vozrast"\<close>
  "kw_vozrast = [1074, 1086, 1079, 1088, 1072, 1089, 1090]"

definition kw_skolko_tebe :: ustr where
  \<comment> \<open>"skolko tebe"\<close>
  "kw_skolko_tebe = [1089, 1082, 1086, 1083, 1100, 1082, 1086, 32, 1090, 1077, 1073, 1077]"

definition reply_greeting :: ustr where
  \<comment> \<open>"Zdravstvujte! CHem mogu pomoch?"\<close>
  "reply_greeting = [1047, 1076, 1088, 1072, 1074, 1089, 1090, 1074, 1091, 1081, 1090,
                  1077, 33, 32, 1063, 1077, 1084, 32, 1084, 1086, 1075, 1091, 32, 1087,
                  1086, 1084, 1086, 1095, 1100, 63]"

definition reply_time_prefix :: ustr where
  \<comment> \<open>"Sejchas "\<close>
  "reply_time_prefix = [1057, 1077, 1081, 1095, 1072, 1089, 32]"

definition reply_date_prefix :: ustr where
  \<comment> \<open>"Segodnya "\<close>
  "reply_date_prefix = [1057, 1077, 1075, 1086, 1076, 1085, 1103, 32]"

definition reply_weather :: ustr where
  \<comment> \<open>"K sozhaleniyu, ya ne mogu proverit pogodu. Rekomenduyu posmotret v prilozhenii pogody."\<close>
  "reply_weather = [1050, 32, 1089, 1086, 1078, 1072, 1083, 1077, 1085, 1080, 1102, 44,
                 32, 1103, 32, 1085, 1077, 32, 1084, 1086, 1075, 1091, 32, 1087, 1088,
                 1086, 1074, 1077, 1088, 1080, 1090, 1100, 32, 1087, 1086, 1075, 1086,
                 1076, 1091, 46, 32, 1056, 1077, 1082, 1086, 1084, 1077, 1085, 1076,
                 1091, 1102, 32, 1087, 1086, 1089, 1084, 1086, 1090, 1088, 1077, 1090,
                 1100, 32, 1074, 32, 1087, 1088, 1080, 1083, 1086, 1078, 1077, 1085,
                 1080, 1080, 32, 1087, 1086, 1075, 1086, 1076, 1099, 46]"

definition reply_help :: ustr where
  \<comment> \<open>"YA umeyu otvechat na privetstviya, govorit vremya i datu, a takzhe otvechat na prostye voprosy. Poprobujte sprosit chto-to prostoe!"\<close>
  "reply_help = [1071, 32, 1091, 1084, 1077, 1102, 32, 1086, 1090, 1074, 1077, 1095, 1072,
              1090, 1100, 32, 1085, 1072, 32, 1087, 1088, 1080, 1074, 1077, 1090, 1089,
              1090, 1074, 1080, 1103, 44, 32, 1075, 1086, 1074, 1086, 1088, 1080, 1090,
              1100, 32, 1074, 1088, 1077, 1084, 1103, 32, 1080, 32, 1076, 1072, 1090,
              1091, 44, 32, 1072, 32, 1090, 1072, 1082, 1078, 1077, 32, 1086, 1090,
              1074, 1077, 1095, 1072, 1090, 1100, 32, 1085, 1072, 32, 1087, 1088, 1086,
              1089, 1090, 1099, 1077, 32, 1074, 1086, 1087, 1088, 1086, 1089, 1099, 46,
              32, 1055, 1086, 1087, 1088, 1086, 1073, 1091, 1081, 1090, 1077, 32, 1089,
              1087, 1088, 1086, 1089, 1080, 1090, 1100, 32, 1095, 1090, 1086, 45, 1090,
              1086, 32, 1087, 1088, 1086, 1089, 1090, 1086, 1077, 33]"

definition reply_thanks :: ustr where
  \<comment> \<open>"Pozhalujsta! Rad byl pomoch!"\<close>
  "reply_thanks = [1055, 1086, 1078, 1072, 1083, 1091, 1081, 1089, 1090, 1072, 33, 32,
                1056, 1072, 1076, 32, 1073, 1099, 1083, 32, 1087, 1086, 1084, 1086,
                1095, 1100, 33]"

definition reply_goodbye :: ustr where
  \<comment> \<open>"Do svidaniya! Horoshego dnya!"\<close>
  "reply_goodbye = [1044, 1086, 32, 1089, 1074, 1080, 1076, 1072, 1085, 1080, 1103, 33,
                 32, 1061, 1086, 1088, 1086, 1096, 1077, 1075, 1086, 32, 1076, 1085,
                 1103, 33]"

definition reply_bot_info :: ustr where
  \<comment> \<open>"YA prostoj chat-bot, sozdannyj dlya demonstracii. Menya zovut Bot!"\<close>
  "reply_bot_info = [1071, 32, 1087, 1088, 1086, 1089, 1090, 1086, 1081, 32, 1095, 1072,
                  1090, 45, 1073, 1086, 1090, 44, 32, 1089, 1086, 1079, 1076, 1072,
                  1085, 1085, 1099, 1081, 32, 1076, 1083, 1103, 32, 1076, 1077, 1084,
                  1086, 1085, 1089, 1090, 1088, 1072, 1094, 1080, 1080, 46, 32, 1052,
                  1077, 1085, 1103, 32, 1079, 1086, 1074, 1091, 1090, 32, 1041, 1086,
                  1090, 33]"

definition reply_age :: ustr where
  \<comment> \<open>"YA tolko chto rodilsya v etom kode! (U+1F60A)"\<close>
  "reply_age = [1071, 32, 1090, 1086, 1083, 1100, 1082, 1086, 32, 1095, 1090, 1086, 32,
             1088, 1086, 1076, 1080, 1083, 1089, 1103, 32, 1074, 32, 1101, 1090, 1086,
             1084, 32, 1082, 1086, 1076, 1077, 33, 32, 128522]"

definition reply_unknown :: ustr where
  \<comment> \<open>"Izvinite, ya ne ponyal vopros. Poprobujte sformulirovat po-drugomu ili sprosite o vremeni, date ili prosto pozdorovajtes!"\<close>
  "reply_unknown = [1048, 1079, 1074, 1080, 1085, 1080, 1090, 1077, 44, 32, 1103, 32,
                 1085, 1077, 32, 1087, 1086, 1085, 1103, 1083, 32, 1074, 1086, 1087,
                 1088, 1086, 1089, 46, 32, 1055, 1086, 1087, 1088, 1086, 1073, 1091,
                 1081, 1090, 1077, 32, 1089, 1092, 1086, 1088, 1084, 1091, 1083, 1080,
                 1088, 1086, 1074, 1072, 1090, 1100, 32, 1087, 1086, 45, 1076, 1088,
                 1091, 1075, 1086, 1084, 1091, 32, 1080, 1083, 1080, 32, 1089, 1087,
                 1088, 1086, 1089, 1080, 1090, 1077, 32, 1086, 32, 1074, 1088, 1077,
                 1084, 1077, 1085, 1080, 44, 32, 1076, 1072, 1090, 1077, 32, 1080, 1083,
                 1080, 32, 1087, 1088, 1086, 1089, 1090, 1086, 32, 1087, 1086, 1079,
                 1076, 1086, 1088, 1086, 1074, 1072, 1081, 1090, 1077, 1089, 1100, 33]"

definition anonymous :: ustr where
  \<comment> \<open>"anonymous"\<close>
  "anonymous = [97, 110, 111, 110, 121, 109, 111, 117, 115]"

definition web :: ustr where
  \<comment> \<open>"web"\<close>
  "web = [119, 101, 98]"

definition ru :: ustr where
  \<comment> \<open>"ru"\<close>
  "ru = [114, 117]"

definition empty_str :: ustr where
  \<comment> \<open>""\<close>
  "empty_str = []"

subsection \<open>The responder\<close>

text \<open>
  The wall clock is read inside the function (\<open>datetime.now().strftime\<close>); the two
  formatted strings are taken from a \<open>clock\<close>. The calls to \<open>time.sleep\<close> only delay
  the answer and are left out.
\<close>

record clock =
  now_hm :: ustr    \<comment> \<open>\<open>datetime.now().strftime("%H:%M")\<close>\<close>
  now_dmy :: ustr   \<comment> \<open>\<open>datetime.now().strftime("%d.%m.%Y")\<close>\<close>

type_synonym reply = "ustr \<times> string \<times> bool"

definition generate_bot_reply :: "(ustr \<Rightarrow> ustr) \<Rightarrow> clock \<Rightarrow> ustr \<Rightarrow> reply" where
  "generate_bot_reply str_lower clk user_text =
    (let text = str_lower user_text in
     if list_ex (\<lambda>greet. str_in greet text)
          [kw_privet, kw_zdravstvuj, kw_hello, kw_hi, kw_dobryj_den, kw_dobryj_vecher,
           kw_dobroe_utro]
     then (reply_greeting, ''greeting'', True)
     else if str_in kw_vremya text \<or> str_in kw_kotoryj_chas text
     then (reply_time_prefix @ now_hm clk @ [46], ''time_query'', True)
     else if str_in kw_data text \<or> str_in kw_kakoe_chislo text \<or> str_in kw_kakoj_den text
             \<or> str_in kw_chislo text
     then (reply_date_prefix @ now_dmy clk @ [46], ''date_query'', True)
     else if str_in kw_pogoda text \<or> str_in kw_dozhd text \<or> str_in kw_solnce text
     then (reply_weather, ''weather_query'', False)
     else if list_ex (\<lambda>help_word. str_in help_word text)
          [kw_pomosch, kw_help, kw_chto_ty_umeesh, kw_funkcii]
     then (reply_help, ''help_request'', True)
     else if list_ex (\<lambda>thanks. str_in thanks text)
          [kw_spasibo, kw_blagodaryu, kw_thanks, kw_thank_you]
     then (reply_thanks, ''thanks'', True)
     else if list_ex (\<lambda>bye. str_in bye text)
          [kw_poka, kw_do_svidaniya, kw_bye, kw_goodbye, kw_uvidimsya]
     then (reply_goodbye, ''goodbye'', True)
     else if list_ex (\<lambda>bot_word. str_in bot_word text)
          [kw_kto_ty, kw_chto_ty, kw_kak_tebya_zovut, kw_imya]
     then (reply_bot_info, ''bot_info'', True)
     else if str_in kw_vozrast text \<or> str_in kw_skolko_tebe text
     then (reply_age, ''bot_info'', True)
     else (reply_unknown, ''unknown'', False))"

subsection \<open>The responder as the specification words it\<close>

text \<open>
  The specification describes the responder as a table of categories in priority order,
  each with a keyword set, and the answer as that of the first category one of whose
  keyword_set occurs in the lowercased text. \<open>categories\<close> is that table (the ninth row
  is the age variant of \<open>bot_info\<close>), \<open>has_keyword\<close> the substring test stated with
  an explicit occurrence, and \<open>respond_spec\<close> the first-match rule.
\<close>

record category =
  keyword_set :: "ustr list"
  outcome :: reply

definition categories :: "clock \<Rightarrow> category list" where
  "categories clk =
    [\<lparr>keyword_set = [kw_privet, kw_zdravstvuj, kw_hello, kw_hi, kw_dobryj_den,
                  kw_dobryj_vecher, kw_dobroe_utro],
      outcome = (reply_greeting, ''greeting'', True)\<rparr>,
     \<lparr>keyword_set = [kw_vremya, kw_kotoryj_chas],
      outcome = (reply_time_prefix @ now_hm clk @ [46], ''time_query'', True)\<rparr>,
     \<lparr>keyword_set = [kw_data, kw_kakoe_chislo, kw_kakoj_den, kw_chislo],
      outcome = (reply_date_prefix @ now_dmy clk @ [46], ''date_query'', True)\<rparr>,
     \<lparr>keyword_set = [kw_pogoda, kw_dozhd, kw_solnce],
      outcome = (reply_weather, ''weather_query'', False)\<rparr>,
     \<lparr>keyword_set = [kw_pomosch, kw_help, kw_chto_ty_umeesh, kw_funkcii],
      outcome = (reply_help, ''help_request'', True)\<rparr>,
     \<lparr>keyword_set = [kw_spasibo, kw_blagodaryu, kw_thanks, kw_thank_you],
      outcome = (reply_thanks, ''thanks'', True)\<rparr>,
     \<lparr>keyword_set = [kw_poka, kw_do_svidaniya, kw_bye, kw_goodbye, kw_uvidimsya],
      outcome = (reply_goodbye, ''goodbye'', True)\<rparr>,
     \<lparr>keyword_set = [kw_kto_ty, kw_chto_ty, kw_kak_tebya_zovut, kw_imya],
      outcome = (reply_bot_info, ''bot_info'', True)\<rparr>,
     \<lparr>keyword_set = [kw_vozrast, kw_skolko_tebe],
      outcome = (reply_age, ''bot_info'', True)\<rparr>]"

definition occurs_in :: "ustr \<Rightarrow> ustr \<Rightarrow> bool" where
  "occurs_in sub text = (\<exists>before after. text = before @ sub @ after)"

definition has_keyword :: "ustr \<Rightarrow> category \<Rightarrow> bool" where
  "has_keyword text c = (\<exists>k. k \<in> set (keyword_set c) \<and> occurs_in k text)"

definition respond_spec :: "clock \<Rightarrow> ustr \<Rightarrow> reply" where
  "respond_spec clk text =
     (case find (has_keyword text) (categories clk) of
        Some c \<Rightarrow> outcome c
      | None \<Rightarrow> (reply_unknown, ''unknown'', False))"

section \<open>Python values and the log table\<close>

text \<open>
  A value decoded from the JSON body of a request is a Python object: \<open>None\<close>, a
  \<open>bool\<close>, an \<open>int\<close>, a \<open>float\<close>, a \<open>str\<close>, a list or a dict with string keys.
  A float is written as the rational number it is.
\<close>

datatype pyval =
    PNone
  | PBool bool
  | PInt int
  | PFloat rat
  | PStr ustr
  | PList "pyval list"
  | PDict "(ustr \<times> pyval) list"

datatype py_error =
    ValueError | TypeError | AttributeError | OverflowError | ZeroDivisionError
  | ParserError | InterfaceError | IntegrityError | OperationalError | BadRequest

subsection \<open>Floats\<close>

text \<open>
  A Python float is an IEEE double. A double is modelled by the rational number it
  is, and every operation on floats rounds its exact result to the nearest double, a
  tie to the even mantissa: \<open>to_double\<close>. The mantissa has 53 bits; the limits of the
  exponent (overflow, subnormal numbers), the infinities and NaN are not modelled.
  \<open>bit_length\<close> is \<open>int.bit_length\<close> on the positive integers.
\<close>

function bit_length :: "int \<Rightarrow> nat" where
  "bit_length n = (if n \<le> 0 then 0 else Suc (bit_length (n div 2)))"
  by pat_completeness auto
termination
  by (relation "measure nat") auto

declare bit_length.simps [simp del]

definition pow2 :: "int \<Rightarrow> rat" where
  "pow2 e = (if 0 \<le> e then 2 ^ nat e else 1 / 2 ^ nat (- e))"

definition floor_log2 :: "rat \<Rightarrow> int" where
  \<comment> \<open>for \<open>x > 0\<close>, the \<open>e\<close> with \<open>2 ^ e \<le> x < 2 ^ (e + 1)\<close>\<close>
  "floor_log2 x =
     (let (p, q) = quotient_of x;
          e = int (bit_length p) - int (bit_length q)
      in if pow2 e \<le> x then e else e - 1)"

definition round_half_even :: "rat \<Rightarrow> int" where
  "round_half_even x =
     (let n = \<lfloor>x\<rfloor>; f = x - of_int n
      in if f < 1 / 2 then n else if 1 / 2 < f then n + 1
         else if even n then n else n + 1)"

definition to_double :: "rat \<Rightarrow> rat" where
  "to_double x =
     (if x = 0 then 0
      else let ulp = pow2 (floor_log2 \<bar>x\<bar> - 52)
           in of_int (round_half_even (x / ulp)) * ulp)"

definition truediv :: "int \<Rightarrow> int \<Rightarrow> py_error + rat" where
  \<comment> \<open>\<open>a / b\<close> on ints: the quotient, correctly rounded\<close>
  "truediv a b = (if b = 0 then Inl ZeroDivisionError else Inr (to_double (of_int a / of_int b)))"

definition float_mul :: "rat \<Rightarrow> rat \<Rightarrow> rat" where
  "float_mul x y = to_double (x * y)"

definition py_round :: "rat \<Rightarrow> nat \<Rightarrow> rat" where
  \<comment> \<open>\<open>round(x, ndigits)\<close> on a float: the decimal nearest to the exact value of
      \<open>x\<close>, a tie to the even digit, and of that decimal the nearest double\<close>
  "py_round x ndigits = to_double (of_int (round_half_even (x * 10 ^ ndigits)) / 10 ^ ndigits)"

subsection \<open>Values in SQLite\<close>

text \<open>
  A value as SQLite stores it. A column declared \<open>TEXT\<close> or \<open>VARCHAR\<close> has text
  affinity: a number stored in it becomes its text. \<open>decimal\<close> is the text of an
  integer; the text of a float is left to the environment (\<open>real_text\<close>).
\<close>

datatype sqlval = Null | Integer int | Real rat | Text ustr | Blob

definition in_int64 :: "int \<Rightarrow> bool" where
  "in_int64 i = (- (2 ^ 63) \<le> i \<and> i < 2 ^ 63)"

fun nat_digits :: "nat \<Rightarrow> ustr" where
  "nat_digits n = (if n < 10 then [48 + n] else nat_digits (n div 10) @ [48 + n mod 10])"

declare nat_digits.simps [simp del]

definition decimal :: "int \<Rightarrow> ustr" where
  "decimal i = (if i < 0 then 45 # nat_digits (nat (- i)) else nat_digits (nat i))"

fun text_affinity :: "(rat \<Rightarrow> ustr) \<Rightarrow> sqlval \<Rightarrow> sqlval" where
  "text_affinity real_text (Integer i) = Text (decimal i)"
| "text_affinity real_text (Real r) = Text (real_text r)"
| "text_affinity real_text v = v"

subsection \<open>The table\<close>

text \<open>
  One row of the table \<open>interaction_log\<close> (the model class \<open>InteractionLog\<close> of app.py,
  the \<open>CREATE TABLE\<close> of sync\_csv\_db.py). \<open>resolved\<close>, \<open>rating\<close> and
  \<open>response_time\<close> are written by every writer as an integer, an integer or NULL, and a
  float or NULL; the other columns hold the value bound, under text affinity.
\<close>

record interaction_log =
  log_id :: int              \<comment> \<open>column \<open>id\<close>, the primary key\<close>
  user_id :: sqlval
  session_id :: sqlval
  timestamp :: sqlval
  query_text :: sqlval
  bot_response :: sqlval
  intent :: sqlval
  resolved :: int
  rating :: "int option"
  response_time :: "rat option"
  channel :: sqlval
  language :: sqlval

type_synonym table = "interaction_log list"

definition ids :: "table \<Rightarrow> int list" where
  "ids tbl = map log_id tbl"

text \<open>\<open>SELECT ... WHERE id = k\<close>, and the id SQLite gives a row inserted without one:
  one more than the largest id of the table, 1 in an empty table.\<close>

definition select_by_id :: "table \<Rightarrow> int \<Rightarrow> interaction_log option" where
  "select_by_id tbl k = find (\<lambda>r. log_id r = k) tbl"

definition next_rowid :: "table \<Rightarrow> int" where
  "next_rowid tbl = (if tbl = [] then 1 else fold max (ids tbl) (log_id (hd tbl)) + 1)"

text \<open>The range 1..5 of a rating, for the rows that have one.\<close>

definition rating_in_range :: "interaction_log \<Rightarrow> bool" where
  "rating_in_range r = (case rating r of None \<Rightarrow> True | Some v \<Rightarrow> 1 \<le> v \<and> v \<le> 5)"

definition ratings_valid :: "table \<Rightarrow> bool" where
  "ratings_valid tbl = list_all rating_in_range tbl"

text \<open>An HTTP answer: the JSON body of a 200, or the status code of an error.\<close>

datatype 'a response = Success 'a | Failure nat

definition ascii :: "string \<Rightarrow> ustr" where
  "ascii s = map of_char s"

definition get_or :: "'a option \<Rightarrow> 'a \<Rightarrow> 'a" where
  \<comment> \<open>\<open>data.get(key, default)\<close>\<close>
  "get_or v d = (case v of None \<Rightarrow> d | Some x \<Rightarrow> x)"

section \<open>The HTTP routes (app.py)\<close>

subsection \<open>chat\<close>

text \<open>
  The body of a request to \<open>/chat\<close>: \<open>request.get_json()\<close> raises on a body that is
  no JSON (inside the \<open>try\<close> of the route), or returns the decoded value, which need
  not be an object. What the route reads from outside is gathered in \<open>chat_env\<close>: the
  lowercasing of \<open>str\<close>, the wall clock, the fresh \<open>uuid4\<close>, the \<open>utcnow\<close> default of
  the timestamp column, the elapsed time, SQLite's text of a float, and whether the
  database accepts the commit.
\<close>

datatype body = Unreadable | Json pyval

record chat_env =
  lowercase :: "ustr \<Rightarrow> ustr"
  wall_clock :: clock
  uuid4 :: ustr
  utcnow :: ustr
  elapsed :: rat
  real_text :: "rat \<Rightarrow> ustr"
  commit_ok :: bool

record chat_reply =
  reply_response :: ustr
  reply_log_id :: int
  reply_intent :: string
  reply_resolved :: bool

fun truthy :: "pyval \<Rightarrow> bool" where
  "truthy PNone = False"
| "truthy (PBool b) = b"
| "truthy (PInt i) = (i \<noteq> 0)"
| "truthy (PFloat r) = (r \<noteq> 0)"
| "truthy (PStr s) = (s \<noteq> [])"
| "truthy (PList l) = (l \<noteq> [])"
| "truthy (PDict d) = (d \<noteq> [])"

fun py_contains :: "pyval \<Rightarrow> ustr \<Rightarrow> py_error + bool" where
  \<comment> \<open>\<open>key in data\<close> for a string \<open>key\<close>\<close>
  "py_contains (PDict d) key = Inr (map_of d key \<noteq> None)"
| "py_contains (PStr s) key = Inr (str_in key s)"
| "py_contains (PList l) key = Inr (PStr key \<in> set l)"
| "py_contains v key = Inl TypeError"

fun bind_json :: "pyval \<Rightarrow> py_error + sqlval" where
  \<comment> \<open>a Python value as a parameter of a statement\<close>
  "bind_json PNone = Inr Null"
| "bind_json (PBool b) = Inr (Integer (if b then 1 else 0))"
| "bind_json (PInt i) = (if in_int64 i then Inr (Integer i) else Inl OverflowError)"
| "bind_json (PFloat r) = Inr (Real r)"
| "bind_json (PStr s) = Inr (Text s)"
| "bind_json (PList l) = Inl InterfaceError"
| "bind_json (PDict d) = Inl InterfaceError"

definition orm_column :: "chat_env \<Rightarrow> sqlval \<Rightarrow> pyval \<Rightarrow> py_error + sqlval" where
  \<comment> \<open>a \<open>String\<close> column of the model: the ORM leaves an attribute that is \<open>None\<close> out
      of the \<open>INSERT\<close>, so that the column takes its default\<close>
  "orm_column env dflt v =
     (if v = PNone then Inr dflt
      else case bind_json v of
             Inl e \<Rightarrow> Inl e
           | Inr x \<Rightarrow> Inr (text_affinity (real_text env) x))"

definition chat :: "chat_env \<Rightarrow> body \<Rightarrow> table \<Rightarrow> chat_reply response \<times> table" where
  "chat env request tbl =
    (case request of
       Unreadable \<Rightarrow> (Failure 500, tbl)
     | Json data \<Rightarrow>
        if \<not> truthy data then (Failure 400, tbl)
        else
          (case py_contains data (ascii ''message'') of
             Inl e \<Rightarrow> (Failure 500, tbl)
           | Inr False \<Rightarrow> (Failure 400, tbl)
           | Inr True \<Rightarrow>
              (case data of
                 PDict d \<Rightarrow>
                  (case map_of d (ascii ''message'') of
                     Some (PStr user_input) \<Rightarrow>
                      if strip user_input = [] then (Failure 400, tbl)
                      else
                        let user_id = get_or (map_of d (ascii ''user_id'')) (PStr anonymous);
                            session_id = get_or (map_of d (ascii ''session_id'')) (PStr (uuid4 env));
                            channel = get_or (map_of d (ascii ''channel'')) (PStr web);
                            language = get_or (map_of d (ascii ''language'')) (PStr ru);
                            (bot_reply, intent, resolved) =
                               generate_bot_reply (lowercase env) (wall_clock env) user_input;
                            response_time = elapsed env
                        in (case (orm_column env Null user_id, orm_column env Null session_id,
                                  orm_column env (Text web) channel,
                                  orm_column env (Text ru) language) of
                              (Inr user_id', Inr session_id', Inr channel', Inr language') \<Rightarrow>
                                if user_id' = Null \<or> session_id' = Null \<or> \<not> commit_ok env
                                then (Failure 500, tbl)
                                else
                                  (Success \<lparr>reply_response = bot_reply,
                                            reply_log_id = next_rowid tbl,
                                            reply_intent = intent,
                                            reply_resolved = resolved\<rparr>,
                                   tbl @ [\<lparr>log_id = next_rowid tbl,
                                            user_id = user_id',
                                            session_id = session_id',
                                            timestamp = Text (utcnow env),
                                            query_text = Text user_input,
                                            bot_response = Text bot_reply,
                                            intent = Text (ascii intent),
                                            resolved = (if resolved then 1 else 0),
                                            rating = None,
                                            response_time = Some response_time,
                                            channel = channel',
                                            language = language'\<rparr>])
                            | _ \<Rightarrow> (Failure 500, tbl))
                   | _ \<Rightarrow> (Failure 500, tbl))
               | _ \<Rightarrow> (Failure 500, tbl))))"

subsection \<open>rate\_response\<close>

text \<open>
  The body of a request to \<open>/rate\<close>: \<open>log_id\<close> an integer where present, \<open>rating\<close>
  any JSON value. \<open>isinstance(rating, int)\<close> holds of a Python \<open>bool\<close> as well, which
  compares as 0 or 1.
\<close>

record rate_data =
  data_log_id :: "int option"
  data_rating :: "pyval option"

record rate_reply =
  rated_log_id :: int
  rated_rating :: pyval

fun isinstance_int :: "pyval \<Rightarrow> bool" where
  "isinstance_int (PInt i) = True"
| "isinstance_int (PBool b) = True"
| "isinstance_int v = False"

fun int_value :: "pyval \<Rightarrow> int" where
  "int_value (PInt i) = i"
| "int_value (PBool b) = (if b then 1 else 0)"
| "int_value v = 0"

definition set_rating :: "int \<Rightarrow> int \<Rightarrow> table \<Rightarrow> table" where
  \<comment> \<open>\<open>log_entry.rating = rating\<close> on the row of that id, then commit\<close>
  "set_rating k v tbl = map (\<lambda>r. if log_id r = k then r\<lparr>rating := Some v\<rparr> else r) tbl"

definition rate_response :: "bool \<Rightarrow> rate_data option \<Rightarrow> table \<Rightarrow> rate_reply response \<times> table" where
  "rate_response db_ok request tbl =
    (case request of
       None \<Rightarrow> (Failure 400, tbl)
     | Some data \<Rightarrow>
        (case (data_log_id data, data_rating data) of
           (Some log_id', Some rating') \<Rightarrow>
             if \<not> isinstance_int rating' \<or> int_value rating' < 1 \<or> int_value rating' > 5
             then (Failure 400, tbl)
             else if \<not> db_ok then (Failure 500, tbl)
             else (case select_by_id tbl log_id' of
                     None \<Rightarrow> (Failure 404, tbl)
                   | Some log_entry \<Rightarrow>
                       (Success \<lparr>rated_log_id = log_id', rated_rating = rating'\<rparr>,
                        set_rating log_id' (int_value rating') tbl))
         | _ \<Rightarrow> (Failure 400, tbl)))"

subsection \<open>get\_stats\<close>

text \<open>
  The aggregates are computed by SQL: \<open>COUNT\<close>, and \<open>AVG\<close>, which skips NULL and is
  NULL over no value. Over integers SQLite's \<open>AVG\<close> divides the sum, as a double, by
  the count (an overflow of the 64-bit sum is not modelled); how it sums floats
  depends on its version, so the mean of a non-empty list of floats is a parameter
  (\<open>avg_real\<close>). Python's \<open>/\<close> raises on a zero divisor. \<open>jsonify\<close> sorts the keys
  of every object: the keys of \<open>intent_distribution\<close> are the intents, and it raises
  when they cannot be compared with each other (\<open>None\<close> beside a string) or are no
  JSON keys (bytes).
\<close>

record stats =
  total_interactions :: int
  rated_interactions :: int
  average_rating :: rat
  resolved_count :: int
  resolution_rate :: rat
  average_response_time :: rat
  intent_distribution :: "(sqlval \<times> int) list"

definition sql_count :: "(interaction_log \<Rightarrow> bool) \<Rightarrow> table \<Rightarrow> int" where
  "sql_count P tbl = int (length (filter P tbl))"

definition present :: "'a option list \<Rightarrow> 'a list" where
  \<comment> \<open>the values that are not NULL\<close>
  "present vs = concat (map (\<lambda>v. case v of None \<Rightarrow> [] | Some x \<Rightarrow> [x]) vs)"

definition sql_avg_int :: "int list \<Rightarrow> rat option" where
  "sql_avg_int vs =
     (if vs = [] then None
      else Some (to_double (to_double (of_int (sum_list vs)) / of_nat (length vs))))"

definition sql_avg_real :: "(rat list \<Rightarrow> rat) \<Rightarrow> rat list \<Rightarrow> rat option" where
  "sql_avg_real avg_real vs = (if vs = [] then None else Some (avg_real vs))"

definition or_zero :: "rat option \<Rightarrow> rat" where
  \<comment> \<open>\<open>value or 0\<close>\<close>
  "or_zero v = (case v of None \<Rightarrow> 0 | Some x \<Rightarrow> x)"

definition group_count :: "table \<Rightarrow> (sqlval \<times> int) list" where
  \<comment> \<open>\<open>SELECT intent, COUNT(id) ... GROUP BY intent\<close>\<close>
  "group_count tbl =
     map (\<lambda>k. (k, sql_count (\<lambda>r. intent r = k) tbl)) (remdups (map intent tbl))"

fun key_kind :: "sqlval \<Rightarrow> nat option" where
  \<comment> \<open>the kinds of keys that Python compares with each other; \<open>None\<close> for bytes\<close>
  "key_kind Null = Some 0"
| "key_kind (Text s) = Some 1"
| "key_kind (Integer i) = Some 2"
| "key_kind (Real r) = Some 2"
| "key_kind Blob = None"

definition json_keys_ok :: "sqlval list \<Rightarrow> bool" where
  "json_keys_ok ks =
     (list_all (\<lambda>k. key_kind k \<noteq> None) ks \<and> length (remdups (map key_kind ks)) \<le> 1)"

definition get_stats :: "(rat list \<Rightarrow> rat) \<Rightarrow> table \<Rightarrow> stats response" where
  "get_stats avg_real tbl =
    (let total_interactions = sql_count (\<lambda>r. True) tbl;
         rated_interactions = sql_count (\<lambda>r. rating r \<noteq> None) tbl;
         avg_rating = or_zero (sql_avg_int (present (map rating
                                  (filter (\<lambda>r. rating r \<noteq> None) tbl))));
         resolved_count = sql_count (\<lambda>r. resolved r = 1) tbl;
         intent_stats = group_count tbl;
         avg_response_time = or_zero (sql_avg_real avg_real (present (map response_time tbl)));
         rate = (if total_interactions > 0
                 then (case truediv resolved_count total_interactions of
                         Inl e \<Rightarrow> Inl e | Inr q \<Rightarrow> Inr (float_mul q 100))
                 else Inr 0)
     in case rate of
          Inl e \<Rightarrow> Failure 500
        | Inr percentage \<Rightarrow>
            if \<not> json_keys_ok (map fst intent_stats) then Failure 500
            else
              Success \<lparr>total_interactions = total_interactions,
                       rated_interactions = rated_interactions,
                       average_rating = py_round avg_rating 2,
                       resolved_count = resolved_count,
                       resolution_rate = py_round percentage 2,
                       average_response_time = py_round avg_response_time 3,
                       intent_distribution = intent_stats\<rparr>)"

section \<open>The reconciler (sync\_csv\_db.py, auto\_sync.py)\<close>

subsection \<open>The data frame\<close>

text \<open>
  \<open>pandas.read_csv\<close> yields a data frame: named columns and rows of cells. A cell, as
  \<open>df.iterrows()\<close> hands it out, is a scalar; an empty field of the file is NaN. A row
  shorter than the header is padded with NaN. The integers of a frame that also has a
  column of strings are Python \<open>int\<close>s (\<open>CInt\<close>); those of a frame whose columns
  are all integers are \<open>numpy.int64\<close> (\<open>CNpInt\<close>), which is no Python \<open>int\<close>.
\<close>

datatype cell = CNaN | CBool bool | CInt int | CNpInt int | CFloat rat | CStr ustr

record dataframe =
  columns :: "string list"
  rows :: "cell list list"

definition empty_frame :: dataframe where
  \<comment> \<open>\<open>pd.DataFrame()\<close>\<close>
  "empty_frame = \<lparr>columns = [], rows = []\<rparr>"

definition df_empty :: "dataframe \<Rightarrow> bool" where
  \<comment> \<open>\<open>df.empty\<close>: some axis has length 0\<close>
  "df_empty df = (columns df = [] \<or> rows df = [])"

definition row_get :: "dataframe \<Rightarrow> cell list \<Rightarrow> string \<Rightarrow> cell option" where
  \<comment> \<open>\<open>row.get(key)\<close>: \<open>None\<close> when the frame has no such column\<close>
  "row_get df row key =
     (if key \<in> set (columns df)
      then Some (case map_of (zip (columns df) row) key of None \<Rightarrow> CNaN | Some c \<Rightarrow> c)
      else None)"

definition notna :: "cell option \<Rightarrow> bool" where
  \<comment> \<open>\<open>pd.notna\<close>: false of \<open>None\<close> and of NaN\<close>
  "notna v = (v \<noteq> None \<and> v \<noteq> Some CNaN)"

text \<open>What a CSV file can be when the reconciler looks at it.\<close>

datatype csv_file =
    Missing               \<comment> \<open>\<open>os.path.exists\<close> is false\<close>
  | Empty_Data            \<comment> \<open>\<open>read_csv\<close> raises \<open>EmptyDataError\<close>: the file has no header\<close>
  | Malformed             \<comment> \<open>\<open>read_csv\<close> raises any other error\<close>
  | Frame dataframe       \<comment> \<open>\<open>read_csv\<close> returns a data frame\<close>

subsection \<open>Python's conversions\<close>

text \<open>
  \<open>int(x)\<close> and \<open>float(x)\<close>. On a string they parse, and raise \<open>ValueError\<close> on a
  string that is no number; the two parsers are parameters of the reconciler's
  environment, as are SQLite's reading of a text as a number and its text of a float.
  \<open>int\<close> of a float truncates toward zero, and raises on NaN. \<open>float\<close> of an
  integer is the nearest double, and raises when there is none. \<open>float\<close> of NaN is
  NaN, written \<open>None\<close> here: SQLite stores it as NULL.
\<close>

record sync_env =
  int_of_str :: "ustr \<Rightarrow> int option"
  float_of_str :: "ustr \<Rightarrow> rat option"
  sqlite_number :: "ustr \<Rightarrow> rat option"   \<comment> \<open>the number SQLite reads a text as, if any\<close>
  sqlite_real_text :: "rat \<Rightarrow> ustr"       \<comment> \<open>the text SQLite writes a float as\<close>
  connect_ok :: bool                 \<comment> \<open>\<open>sqlite3.connect\<close> succeeds\<close>
  max_variable_number :: nat         \<comment> \<open>SQLite's limit on the \<open>?\<close> of one statement\<close>

definition py_trunc :: "rat \<Rightarrow> int" where
  "py_trunc r = (if 0 \<le> r then \<lfloor>r\<rfloor> else \<lceil>r\<rceil>)"

fun py_int :: "sync_env \<Rightarrow> cell \<Rightarrow> py_error + int" where
  "py_int env CNaN = Inl ValueError"
| "py_int env (CBool b) = Inr (if b then 1 else 0)"
| "py_int env (CInt i) = Inr i"
| "py_int env (CNpInt i) = Inr i"
| "py_int env (CFloat r) = Inr (py_trunc r)"
| "py_int env (CStr s) = (case int_of_str env s of None \<Rightarrow> Inl ValueError | Some i \<Rightarrow> Inr i)"

definition float_of_int :: "int \<Rightarrow> py_error + rat option" where
  "float_of_int i =
     (if \<bar>i\<bar> < 2 ^ 1024 - 2 ^ 970 then Inr (Some (to_double (of_int i))) else Inl OverflowError)"

fun py_float :: "sync_env \<Rightarrow> cell \<Rightarrow> py_error + rat option" where
  "py_float env CNaN = Inr None"
| "py_float env (CBool b) = Inr (Some (if b then 1 else 0))"
| "py_float env (CInt i) = float_of_int i"
| "py_float env (CNpInt i) = float_of_int i"
| "py_float env (CFloat r) = Inr (Some r)"
| "py_float env (CStr s) = (case float_of_str env s of None \<Rightarrow> Inl ValueError | Some r \<Rightarrow> Inr (Some r))"

text \<open>
  A parser for the plain decimal integers among the strings that \<open>int\<close> accepts
  (blanks around, a sign, digits, single underscores between digits), and one for the
  plain decimal fractions among those that \<open>float\<close> accepts. They serve to run the
  reconciler on concrete files.
\<close>

definition is_digit :: "nat \<Rightarrow> bool" where
  "is_digit c = (48 \<le> c \<and> c \<le> 57)"

fun digit_groups :: "ustr \<Rightarrow> bool" where
  "digit_groups [] = False"
| "digit_groups [c] = is_digit c"
| "digit_groups (c # d # cs) =
     (is_digit c \<and> (if d = 95 then digit_groups cs else digit_groups (d # cs)))"

definition digits_value :: "ustr \<Rightarrow> nat" where
  "digits_value s = foldl (\<lambda>acc c. if c = 95 then acc else 10 * acc + (c - 48)) 0 s"

definition split_sign :: "ustr \<Rightarrow> bool \<times> ustr" where
  "split_sign s = (if s \<noteq> [] \<and> hd s = 45 then (True, tl s)
                   else if s \<noteq> [] \<and> hd s = 43 then (False, tl s)
                   else (False, s))"

definition decimal_int_of_str :: "ustr \<Rightarrow> int option" where
  "decimal_int_of_str s =
     (let (neg, body) = split_sign (strip s)
      in if digit_groups body
         then Some (if neg then - int (digits_value body) else int (digits_value body))
         else None)"

definition decimal_float_of_str :: "ustr \<Rightarrow> rat option" where
  "decimal_float_of_str s =
     (let (neg, body) = split_sign (strip s);
          whole = takeWhile is_digit body;
          rest = dropWhile is_digit body;
          frac = (if rest \<noteq> [] \<and> hd rest = 46 then tl rest else rest)
      in if (whole \<noteq> [] \<or> frac \<noteq> []) \<and> list_all is_digit frac
            \<and> (frac = [] \<or> (rest \<noteq> [] \<and> hd rest = 46))
         then (let v = of_nat (digits_value whole)
                       + of_nat (digits_value frac) / 10 ^ length frac
               in Some (if neg then - v else v))
         else None)"

text \<open>In the examples no float reaches a text column; the text of a float is left
  empty there.\<close>

definition python :: sync_env where
  "python = \<lparr>int_of_str = decimal_int_of_str, float_of_str = decimal_float_of_str,
             sqlite_number = decimal_float_of_str, sqlite_real_text = (\<lambda>r. []),
             connect_ok = True, max_variable_number = 999\<rparr>"

subsection \<open>Preparing one row\<close>

text \<open>
  The dictionary \<open>data\<close> built from a row of the frame. \<open>row.get(key, default)\<close> gives
  the default only when the frame has no such column; an empty cell is NaN.
\<close>

record data =
  csv_id :: "cell option"
  csv_user_id :: cell
  csv_session_id :: cell
  csv_timestamp :: cell
  csv_query_text :: cell
  csv_bot_response :: cell
  csv_intent :: "cell option"
  csv_resolved :: int
  csv_rating :: "int option"
  csv_response_time :: "rat option"
  csv_channel :: cell
  csv_language :: cell

definition coerce_resolved :: "sync_env \<Rightarrow> cell option \<Rightarrow> py_error + int" where
  \<comment> \<open>\<open>int(row.get('resolved', 1)) if pd.notna(row.get('resolved')) else 1\<close>\<close>
  "coerce_resolved env v = (if notna v then py_int env (get_or v (CInt 1)) else Inr 1)"

definition coerce_rating :: "sync_env \<Rightarrow> cell option \<Rightarrow> py_error + int option" where
  \<comment> \<open>\<open>int(row.get('rating')) if pd.notna(row.get('rating')) else None\<close>\<close>
  "coerce_rating env v =
     (if notna v
      then (case py_int env (the v) of Inl e \<Rightarrow> Inl e | Inr i \<Rightarrow> Inr (Some i))
      else Inr None)"

definition coerce_response_time :: "sync_env \<Rightarrow> cell option \<Rightarrow> py_error + rat option" where
  \<comment> \<open>\<open>float(row.get('response_time')) if pd.notna(row.get('response_time')) else None\<close>\<close>
  "coerce_response_time env v = (if notna v then py_float env (the v) else Inr None)"

definition prepare_data :: "sync_env \<Rightarrow> dataframe \<Rightarrow> cell list \<Rightarrow> py_error + data" where
  "prepare_data env df row =
    (case coerce_resolved env (row_get df row ''resolved'') of
       Inl e \<Rightarrow> Inl e
     | Inr resolved' \<Rightarrow>
    (case coerce_rating env (row_get df row ''rating'') of
       Inl e \<Rightarrow> Inl e
     | Inr rating' \<Rightarrow>
    (case coerce_response_time env (row_get df row ''response_time'') of
       Inl e \<Rightarrow> Inl e
     | Inr response_time' \<Rightarrow>
        Inr \<lparr>csv_id = row_get df row ''id'',
             csv_user_id = get_or (row_get df row ''user_id'') (CStr []),
             csv_session_id = get_or (row_get df row ''session_id'') (CStr []),
             csv_timestamp = get_or (row_get df row ''timestamp'') (CStr []),
             csv_query_text = get_or (row_get df row ''query_text'') (CStr []),
             csv_bot_response = get_or (row_get df row ''bot_response'') (CStr []),
             csv_intent = row_get df row ''intent'',
             csv_resolved = resolved',
             csv_rating = rating',
             csv_response_time = response_time',
             csv_channel = get_or (row_get df row ''channel'') (CStr web),
             csv_language = get_or (row_get df row ''language'') (CStr ru)\<rparr>)))"

subsection \<open>Binding values to SQLite\<close>

text \<open>
  \<open>cursor.execute\<close> binds the Python values to the \<open>?\<close> of the statement: NaN and
  \<open>None\<close> become NULL, a \<open>bool\<close> an integer, an \<open>int\<close> outside 64 bits raises
  \<open>OverflowError\<close>, and a \<open>numpy.int64\<close>, which \<open>sqlite3\<close> does not know as an
  integer, is bound as the bytes of its buffer. The text columns of the table, as
  \<open>_init_database\<close> declares it, store a number as its text.
\<close>

fun bindable :: "cell \<Rightarrow> bool" where
  "bindable (CInt i) = in_int64 i"
| "bindable c = True"

fun sql_of :: "cell \<Rightarrow> sqlval" where
  "sql_of CNaN = Null"
| "sql_of (CBool b) = Integer (if b then 1 else 0)"
| "sql_of (CInt i) = Integer i"
| "sql_of (CNpInt i) = Blob"
| "sql_of (CFloat r) = Real r"
| "sql_of (CStr s) = Text s"

definition sql_of_opt :: "cell option \<Rightarrow> sqlval" where
  "sql_of_opt v = (case v of None \<Rightarrow> Null | Some c \<Rightarrow> sql_of c)"

definition text_column :: "sync_env \<Rightarrow> sqlval \<Rightarrow> sqlval" where
  \<comment> \<open>what a column declared \<open>TEXT\<close> stores of a value\<close>
  "text_column env v = text_affinity (sqlite_real_text env) v"

text \<open>
  The value bound to the column \<open>id INTEGER PRIMARY KEY\<close>: NULL lets SQLite choose the
  id; an integer is the id; a float is the id when its value is an integer of 64 bits;
  a text is the id when SQLite reads it as such a number; anything else is refused on
  insertion (datatype mismatch) and equals no id in a \<open>WHERE id = ?\<close>.
\<close>

datatype rowid = Auto | Key int | Mismatch

definition rowid_of_real :: "rat \<Rightarrow> rowid" where
  "rowid_of_real r = (if of_int \<lfloor>r\<rfloor> = r \<and> in_int64 \<lfloor>r\<rfloor> then Key \<lfloor>r\<rfloor> else Mismatch)"

fun rowid_of :: "sync_env \<Rightarrow> sqlval \<Rightarrow> rowid" where
  "rowid_of env Null = Auto"
| "rowid_of env (Integer i) = Key i"
| "rowid_of env (Real r) = rowid_of_real r"
| "rowid_of env (Text s) = (case sqlite_number env s of None \<Rightarrow> Mismatch | Some r \<Rightarrow> rowid_of_real r)"
| "rowid_of env Blob = Mismatch"

definition data_bindable :: "data \<Rightarrow> bool" where
  "data_bindable d =
     (list_all bindable [csv_user_id d, csv_session_id d, csv_timestamp d, csv_query_text d,
                         csv_bot_response d, csv_channel d, csv_language d]
      \<and> (case csv_intent d of None \<Rightarrow> True | Some c \<Rightarrow> bindable c)
      \<and> in_int64 (csv_resolved d)
      \<and> (case csv_rating d of None \<Rightarrow> True | Some i \<Rightarrow> in_int64 i))"

definition not_null_ok :: "data \<Rightarrow> bool" where
  \<comment> \<open>the columns declared \<open>NOT NULL\<close>\<close>
  "not_null_ok d =
     (sql_of (csv_user_id d) \<noteq> Null \<and> sql_of (csv_session_id d) \<noteq> Null
      \<and> sql_of (csv_timestamp d) \<noteq> Null \<and> sql_of (csv_query_text d) \<noteq> Null
      \<and> sql_of (csv_bot_response d) \<noteq> Null)"

definition sql_update :: "sync_env \<Rightarrow> int \<Rightarrow> data \<Rightarrow> table \<Rightarrow> table" where
  \<comment> \<open>\<open>UPDATE interaction_log SET ... WHERE id = k\<close>\<close>
  "sql_update env k d tbl =
     map (\<lambda>r. if log_id r = k
               then r\<lparr>user_id := text_column env (sql_of (csv_user_id d)),
                      session_id := text_column env (sql_of (csv_session_id d)),
                      timestamp := text_column env (sql_of (csv_timestamp d)),
                      query_text := text_column env (sql_of (csv_query_text d)),
                      bot_response := text_column env (sql_of (csv_bot_response d)),
                      intent := text_column env (sql_of_opt (csv_intent d)),
                      resolved := csv_resolved d,
                      rating := csv_rating d,
                      response_time := csv_response_time d,
                      channel := text_column env (sql_of (csv_channel d)),
                      language := text_column env (sql_of (csv_language d))\<rparr>
               else r) tbl"

definition sql_insert :: "sync_env \<Rightarrow> int \<Rightarrow> data \<Rightarrow> table \<Rightarrow> table" where
  \<comment> \<open>\<open>INSERT INTO interaction_log (...) VALUES (...)\<close> with the id \<open>k\<close>\<close>
  "sql_insert env k d tbl =
     tbl @ [\<lparr>log_id = k,
              user_id = text_column env (sql_of (csv_user_id d)),
              session_id = text_column env (sql_of (csv_session_id d)),
              timestamp = text_column env (sql_of (csv_timestamp d)),
              query_text = text_column env (sql_of (csv_query_text d)),
              bot_response = text_column env (sql_of (csv_bot_response d)),
              intent = text_column env (sql_of_opt (csv_intent d)),
              resolved = csv_resolved d,
              rating = csv_rating d,
              response_time = csv_response_time d,
              channel = text_column env (sql_of (csv_channel d)),
              language = text_column env (sql_of (csv_language d))\<rparr>]"

subsection \<open>The reconciliation\<close>

text \<open>One turn of the loop over \<open>df.iterrows()\<close>: prepare the row, look its id up,
  update the row of that id or insert a new one. Any exception ends the loop.\<close>

definition upsert :: "sync_env \<Rightarrow> dataframe \<Rightarrow> table \<Rightarrow> cell list \<Rightarrow> py_error + table" where
  "upsert env df tbl row =
    (case prepare_data env df row of
       Inl e \<Rightarrow> Inl e
     | Inr d \<Rightarrow>
        if \<not> (case csv_id d of None \<Rightarrow> True | Some c \<Rightarrow> bindable c) then Inl OverflowError
        else
          let key = rowid_of env (sql_of_opt (csv_id d));
              exists = (case key of Key k \<Rightarrow> select_by_id tbl k \<noteq> None | _ \<Rightarrow> False)
          in if \<not> data_bindable d then Inl OverflowError
             else if \<not> not_null_ok d then Inl IntegrityError
             else if exists
             then (case key of Key k \<Rightarrow> Inr (sql_update env k d tbl) | _ \<Rightarrow> Inr tbl)
             else (case key of
                     Key k \<Rightarrow> Inr (sql_insert env k d tbl)
                   | Auto \<Rightarrow> Inr (sql_insert env (next_rowid tbl) d tbl)
                   | Mismatch \<Rightarrow> Inl IntegrityError))"

fun upsert_all :: "sync_env \<Rightarrow> dataframe \<Rightarrow> table \<Rightarrow> cell list list \<Rightarrow> py_error + table" where
  "upsert_all env df tbl [] = Inr tbl"
| "upsert_all env df tbl (row # rest) =
     (case upsert env df tbl row of
        Inl e \<Rightarrow> Inl e
      | Inr tbl' \<Rightarrow> upsert_all env df tbl' rest)"

text \<open>Python's \<open>==\<close> between a cell and an integer, which decides the set difference
  \<open>existing_ids - csv_ids\<close>.\<close>

fun cell_eq_int :: "cell \<Rightarrow> int \<Rightarrow> bool" where
  "cell_eq_int (CInt j) i = (j = i)"
| "cell_eq_int (CNpInt j) i = (j = i)"
| "cell_eq_int (CBool b) i = ((if b then 1 else 0) = i)"
| "cell_eq_int (CFloat r) i = (r = of_int i)"
| "cell_eq_int c i = False"

definition csv_ids :: "dataframe \<Rightarrow> cell list" where
  \<comment> \<open>\<open>df['id'].tolist()\<close> if the frame has a column \<open>id\<close>, else nothing\<close>
  "csv_ids df =
     (if ''id'' \<in> set (columns df)
      then map (\<lambda>row. get_or (row_get df row ''id'') CNaN) (rows df)
      else [])"

text \<open>
  The part of \<open>csv_to_db\<close> after the file is read. The statements run in one
  transaction on a working copy of the table, which \<open>conn.commit()\<close> makes the table;
  when an exception leaves the function before the commit, the connection is dropped and
  the table stays as it was. The result is the Boolean returned and the table
  afterwards.
\<close>

definition reconcile :: "sync_env \<Rightarrow> dataframe \<Rightarrow> table \<Rightarrow> bool \<times> table" where
  "reconcile env df tbl =
    (if \<not> connect_ok env then (False, tbl)
     else if df_empty df then (True, [])
     else
       let existing_ids = remdups (ids tbl);
           ids_to_delete = filter (\<lambda>i. \<not> list_ex (\<lambda>v. cell_eq_int v i) (csv_ids df))
                             existing_ids
       in if ids_to_delete \<noteq> [] \<and> max_variable_number env < length ids_to_delete
          then (False, tbl)
          else
            let tbl1 = (if ids_to_delete \<noteq> []
                        then filter (\<lambda>r. log_id r \<notin> set ids_to_delete) tbl
                        else tbl)
            in case upsert_all env df tbl1 (rows df) of
                 Inl e \<Rightarrow> (False, tbl)
               | Inr tbl2 \<Rightarrow> (True, tbl2))"

definition csv_to_db :: "sync_env \<Rightarrow> csv_file \<Rightarrow> table \<Rightarrow> bool \<times> table" where
  \<comment> \<open>\<open>CSVDBSync.csv_to_db\<close>\<close>
  "csv_to_db env file tbl =
    (case file of
       Missing \<Rightarrow> (False, tbl)
     | Empty_Data \<Rightarrow> reconcile env empty_frame tbl
     | Malformed \<Rightarrow> (False, tbl)
     | Frame df \<Rightarrow> reconcile env df tbl)"

definition sync_csv_to_db :: "sync_env \<Rightarrow> csv_file \<Rightarrow> table \<Rightarrow> bool \<times> table" where
  \<comment> \<open>\<open>AutoSync.sync_csv_to_db\<close>, which repeats the body of \<open>csv_to_db\<close> line for line\<close>
  "sync_csv_to_db env file tbl =
    (case file of
       Missing \<Rightarrow> (False, tbl)
     | Empty_Data \<Rightarrow> reconcile env empty_frame tbl
     | Malformed \<Rightarrow> (False, tbl)
     | Frame df \<Rightarrow> reconcile env df tbl)"

subsection \<open>The outcome of a run, as the specification words it\<close>










definition stored_row :: "sync_env \<Rightarrow> int \<Rightarrow> data \<Rightarrow> interaction_log" where
  \<comment> \<open>the row that \<open>sql_insert\<close> appends\<close>
  "stored_row env k d = last (sql_insert env k d [])"


section \<open>Example data\<close>

text \<open>Concrete values on which the functions above are run below.\<close>

definition demo_env :: chat_env where
  "demo_env = \<lparr>lowercase = lower_basic,
                wall_clock = \<lparr>now_hm = [49, 50, 58, 51, 48], now_dmy = []\<rparr>,
                uuid4 = [117], utcnow = [], elapsed = 1 / 4, real_text = (\<lambda>r. []),
                commit_ok = True\<rparr>"

definition demo_row :: "int \<Rightarrow> int \<Rightarrow> int option \<Rightarrow> interaction_log" where
  "demo_row k res rat =
     \<lparr>log_id = k, user_id = Text anonymous, session_id = Text [115], timestamp = Text [116],
      query_text = Text kw_hi, bot_response = Text reply_greeting,
      intent = Text (ascii ''greeting''), resolved = res, rating = rat,
      response_time = Some (1 / 2), channel = Text web, language = Text ru\<rparr>"

definition demo_frame :: "cell list list \<Rightarrow> dataframe" where
  "demo_frame rs =
     \<lparr>columns = [''id'', ''user_id'', ''session_id'', ''timestamp'', ''query_text'',
                  ''bot_response'', ''rating''],
      rows = rs\<rparr>"

definition demo_cells :: "int \<Rightarrow> cell \<Rightarrow> cell list" where
  "demo_cells k rat = [CInt k, CStr [117], CStr [115], CStr [116], CStr [113], CStr [98], rat]"

definition hi_message :: pyval where
  \<comment> \<open>the body \<open>{"message": "hi"}\<close>\<close>
  "hi_message = PDict [(ascii ''message'', PStr kw_hi)]"

definition null_message :: pyval where
  \<comment> \<open>the body \<open>{"message": null}\<close>\<close>
  "null_message = PDict [(ascii ''message'', PNone)]"

definition demo_rate :: "int \<Rightarrow> pyval \<Rightarrow> rate_data" where
  "demo_rate k v = \<lparr>data_log_id = Some k, data_rating = Some v\<rparr>"

definition demo_table :: table where
  "demo_table = [demo_row 1 1 None, demo_row 2 0 None, demo_row 3 0 None]"

definition abc :: ustr where
  \<comment> \<open>"abc"\<close>
  "abc = [97, 98, 99]"

definition bad_frame :: dataframe where
  \<comment> \<open>a file whose second row has the rating "abc"\<close>
  "bad_frame = demo_frame [demo_cells 1 (CInt 5), demo_cells 2 (CStr abc)]"






definition naive_mean :: "rat list \<Rightarrow> rat" where
  \<comment> \<open>a mean of floats: the exact sum divided by the count, rounded once\<close>
  "naive_mean xs = to_double (sum_list xs / of_nat (length xs))"

definition mixed_table :: table where
  \<comment> \<open>a row with an intent beside a row whose intent is NULL\<close>
  "mixed_table = [demo_row 1 1 None, (demo_row 2 1 None)\<lparr>intent := Null\<rparr>]"

lemmas kw_defs = kw_privet_def kw_zdravstvuj_def kw_hello_def kw_hi_def kw_dobryj_den_def
    kw_dobryj_vecher_def kw_dobroe_utro_def kw_vremya_def kw_kotoryj_chas_def
    kw_data_def kw_kakoe_chislo_def kw_kakoj_den_def kw_chislo_def kw_pogoda_def
    kw_dozhd_def kw_solnce_def kw_pomosch_def kw_help_def kw_chto_ty_umeesh_def
    kw_funkcii_def kw_spasibo_def kw_blagodaryu_def kw_thanks_def kw_thank_you_def
    kw_poka_def kw_do_svidaniya_def kw_bye_def kw_goodbye_def kw_uvidimsya_def
    kw_kto_ty_def kw_chto_ty_def kw_kak_tebya_zovut_def kw_imya_def kw_vozrast_def
    kw_skolko_tebe_def

section \<open>Properties of the responder\<close>

lemma starts_with_iff: "starts_with text sub \<longleftrightarrow> (\<exists>after. text = sub @ after)"
proof
  assume "starts_with text sub"
  then have "text = sub @ drop (length sub) text"
    unfolding starts_with_def by (metis append_take_drop_id)
  then show "\<exists>after. text = sub @ after" ..
next
  assume "\<exists>after. text = sub @ after"
  then show "starts_with text sub"
    unfolding starts_with_def by auto
qed

lemma str_in_occurs: "str_in sub t \<longleftrightarrow> occurs_in sub t"
proof (induction t)
  case Nil
  show ?case by (auto simp: occurs_in_def)
next
  case (Cons c cs)
  show ?case
  proof
    assume "str_in sub (c # cs)"
    then consider "starts_with (c # cs) sub" | "str_in sub cs" by auto
    then show "occurs_in sub (c # cs)"
    proof cases
      case 1
      then obtain after where "c # cs = [] @ sub @ after"
        by (auto simp: starts_with_iff)
      then show ?thesis unfolding occurs_in_def by blast
    next
      case 2
      with Cons obtain before after where "cs = before @ sub @ after"
        by (auto simp: occurs_in_def)
      then have "c # cs = (c # before) @ sub @ after" by simp
      then show ?thesis unfolding occurs_in_def by blast
    qed
  next
    assume "occurs_in sub (c # cs)"
    then obtain before after where eq: "c # cs = before @ sub @ after"
      by (auto simp: occurs_in_def)
    show "str_in sub (c # cs)"
    proof (cases before)
      case Nil
      with eq have "starts_with (c # cs) sub" by (auto simp: starts_with_iff)
      then show ?thesis by simp
    next
      case (Cons b bs)
      with eq have "cs = bs @ sub @ after" by simp
      then have "occurs_in sub cs" unfolding occurs_in_def by blast
      with Cons.IH show ?thesis by simp
    qed
  qed
qed

lemma list_ex_has_keyword:
  "list_ex (\<lambda>k. str_in k text) ks \<longleftrightarrow> has_keyword text \<lparr>keyword_set = ks, outcome = out\<rparr>"
  by (auto simp: list_ex_iff has_keyword_def str_in_occurs)

lemma generate_bot_reply_refines:
  "generate_bot_reply str_lower clk user_text = respond_spec clk (str_lower user_text)"
  unfolding generate_bot_reply_def respond_spec_def categories_def Let_def
  by (simp add: list_ex_has_keyword [symmetric])

lemma category_labels:
  "map (\<lambda>c. fst (snd (outcome c))) (categories clk) =
     [''greeting'', ''time_query'', ''date_query'', ''weather_query'', ''help_request'',
      ''thanks'', ''goodbye'', ''bot_info'', ''bot_info'']"
  by (simp add: categories_def)

text \<open>
  Claim C4. For every input text, the responder lowercases the text and answers with
  the reply, intent label and resolved flag of the first category, in the fixed order
  greeting, time\_query, date\_query, weather\_query, help\_request, thanks, goodbye,
  bot\_info, bot\_info (age), one of whose keywords occurs in the lowercased text as a
  substring; a text with keywords of several categories gets the answer of the earliest
  one only, and a text with no keyword gets the intent unknown with resolved false.
  \<open>respond_spec\<close> is that rule: \<open>find\<close> returns the first category of the
  list that has a keyword in the text.
\<close>

theorem generate_bot_reply_first_match:
  "generate_bot_reply str_lower clk user_text = respond_spec clk (str_lower user_text)
   \<and> map (\<lambda>c. fst (snd (outcome c))) (categories clk) =
       [''greeting'', ''time_query'', ''date_query'', ''weather_query'', ''help_request'',
        ''thanks'', ''goodbye'', ''bot_info'', ''bot_info'']
   \<and> (find (has_keyword (str_lower user_text)) (categories clk) = None \<longrightarrow>
        snd (generate_bot_reply str_lower clk user_text) = (''unknown'', False))"
  using generate_bot_reply_refines [of str_lower clk user_text] category_labels [of clk]
  by (simp add: respond_spec_def)

lemma has_keyword_code:
  "has_keyword t c = list_ex (\<lambda>k. str_in k t) (keyword_set c)"
  by (auto simp: list_ex_iff has_keyword_def str_in_occurs)

theorem generate_bot_reply_first_match_witness:
  "find (has_keyword (lower_basic [81, 63])) (categories \<lparr>now_hm = [], now_dmy = []\<rparr>) = None
   \<and> snd (generate_bot_reply lower_basic \<lparr>now_hm = [], now_dmy = []\<rparr> [81, 63])
       = (''unknown'', False)"
proof -
  have none: "find (has_keyword (lower_basic [81, 63]))
                (categories \<lparr>now_hm = [], now_dmy = []\<rparr>) = None"
    by (simp add: categories_def has_keyword_code kw_defs starts_with_def
          lower_basic_def lower_cp_def)
  from generate_bot_reply_first_match
         [of lower_basic "\<lparr>now_hm = [], now_dmy = []\<rparr>" "[81, 63]"]
  have "find (has_keyword (lower_basic [81, 63]))
          (categories \<lparr>now_hm = [], now_dmy = []\<rparr>) = None \<longrightarrow>
        snd (generate_bot_reply lower_basic \<lparr>now_hm = [], now_dmy = []\<rparr> [81, 63])
          = (''unknown'', False)"
    by blast
  with none show ?thesis by blast
qed

section \<open>Properties of the routes\<close>

lemma fold_max_ge: "(x::int) \<in> insert a (set xs) \<Longrightarrow> x \<le> fold max xs a"
proof (induction xs arbitrary: a x)
  case Nil
  then show ?case by simp
next
  case (Cons y ys)
  have "a \<le> max y a" "y \<le> max y a" by simp_all
  moreover have "max y a \<le> fold max ys (max y a)"
    by (rule Cons.IH) simp
  moreover have "x \<in> set ys \<Longrightarrow> x \<le> fold max ys (max y a)"
    by (rule Cons.IH) simp
  ultimately show ?case using Cons.prems by auto
qed

lemma next_rowid_fresh: "next_rowid tbl \<notin> set (ids tbl)"
proof
  assume "next_rowid tbl \<in> set (ids tbl)"
  then have ne: "tbl \<noteq> []" by (auto simp: ids_def)
  with \<open>next_rowid tbl \<in> set (ids tbl)\<close>
  have "next_rowid tbl \<le> fold max (ids tbl) (log_id (hd tbl))"
    by (intro fold_max_ge) simp
  with ne show False by (simp add: next_rowid_def)
qed

lemma select_by_id_append_fresh:
  "log_id e \<notin> set (ids tbl) \<Longrightarrow> select_by_id (tbl @ [e]) (log_id e) = Some e"
  by (induction tbl) (auto simp: select_by_id_def ids_def)


lemma select_by_id_Some: "select_by_id tbl k = Some r \<Longrightarrow> r \<in> set tbl \<and> log_id r = k"
  by (induction tbl) (auto simp: select_by_id_def split: if_splits)

lemma chat_valid_message:
  assumes "map_of d (ascii ''message'') = Some (PStr m)" and "strip m \<noteq> []"
    and "map_of d (ascii ''user_id'') = None" and "map_of d (ascii ''session_id'') = None"
    and "map_of d (ascii ''channel'') = None" and "map_of d (ascii ''language'') = None"
    and "commit_ok env"
  shows "\<exists>entry. chat env (Json (PDict d)) tbl =
          (Success \<lparr>reply_response = fst (generate_bot_reply (lowercase env) (wall_clock env) m),
                    reply_log_id = log_id entry,
                    reply_intent = fst (snd (generate_bot_reply (lowercase env) (wall_clock env) m)),
                    reply_resolved = snd (snd (generate_bot_reply (lowercase env) (wall_clock env) m))\<rparr>,
           tbl @ [entry])
        \<and> log_id entry \<notin> set (ids tbl)
        \<and> select_by_id (tbl @ [entry]) (log_id entry) = Some entry
        \<and> query_text entry = Text m \<and> rating entry = None"
proof -
  obtain bot_reply intent' resolved' where
    g: "generate_bot_reply (lowercase env) (wall_clock env) m = (bot_reply, intent', resolved')"
    by (cases "generate_bot_reply (lowercase env) (wall_clock env) m") auto
  define entry where "entry =
     \<lparr>log_id = next_rowid tbl,
      user_id = Text anonymous,
      session_id = Text (uuid4 env),
      timestamp = Text (utcnow env),
      query_text = Text m,
      bot_response = Text bot_reply,
      intent = Text (ascii intent'),
      resolved = (if resolved' then 1 else 0),
      rating = None,
      response_time = Some (elapsed env),
      channel = Text web,
      language = Text ru\<rparr>"
  have fresh: "log_id entry \<notin> set (ids tbl)"
    using next_rowid_fresh [of tbl] by (simp add: entry_def)
  from assms(1) have ne: "d \<noteq> []" by auto
  have run: "chat env (Json (PDict d)) tbl =
       (Success \<lparr>reply_response = bot_reply, reply_log_id = log_id entry,
                 reply_intent = intent', reply_resolved = resolved'\<rparr>, tbl @ [entry])"
    using assms g ne
    by (simp add: chat_def entry_def Let_def get_or_def orm_column_def)
  show ?thesis
    using run fresh select_by_id_append_fresh [OF fresh] g
    by (intro exI [of _ entry]) (simp add: entry_def)
qed

lemma chat_missing_message:
  "map_of d (ascii ''message'') = None \<Longrightarrow> chat env (Json (PDict d)) tbl = (Failure 400, tbl)"
  by (simp add: chat_def)

lemma chat_blank_message:
  "map_of d (ascii ''message'') = Some (PStr m) \<Longrightarrow> strip m = [] \<Longrightarrow>
   chat env (Json (PDict d)) tbl = (Failure 400, tbl)"
  by (auto simp: chat_def)

text \<open>
  Claim C5 says that a chat request whose message is missing or blank fails with the
  validation error 400 and that no record is persisted (and that a request with a
  message that is present and not blank persists one record and gets its id, which the
  route does: \<open>chat_valid_message\<close>). The route answers 400 when the key \<open>message\<close>
  is absent and when the message is a blank string, but a body whose message is
  \<open>null\<close> passes the test \<open>'message' not in data\<close>, \<open>None.strip()\<close> raises, and the
  \<open>except\<close> branch answers 500; so does a body that \<open>get_json\<close> cannot read. In both
  cases no record is persisted.
\<close>

theorem chat_null_message:
  "chat env (Json null_message) tbl = (Failure 500, tbl)
   \<and> chat env Unreadable tbl = (Failure 500, tbl)"
  by (simp add: chat_def null_message_def)

theorem chat_null_message_witness:
  "chat demo_env (Json null_message) demo_table = (Failure 500, demo_table)
   \<and> chat demo_env Unreadable demo_table = (Failure 500, demo_table)"
  using chat_null_message [of demo_env demo_table] by simp

lemma rate_response_invalid:
  "data_log_id data = Some k \<Longrightarrow> data_rating data = Some v \<Longrightarrow>
   \<not> (isinstance_int v \<and> 1 \<le> int_value v \<and> int_value v \<le> 5) \<Longrightarrow>
   rate_response db_ok (Some data) tbl = (Failure 400, tbl)"
  by (auto simp: rate_response_def)

lemma rate_response_valid:
  "data_log_id data = Some k \<Longrightarrow> data_rating data = Some v \<Longrightarrow>
   isinstance_int v \<and> 1 \<le> int_value v \<and> int_value v \<le> 5 \<Longrightarrow> db_ok \<Longrightarrow>
   rate_response db_ok (Some data) tbl =
     (case select_by_id tbl k of
        None \<Rightarrow> (Failure 404, tbl)
      | Some e \<Rightarrow> (Success \<lparr>rated_log_id = k, rated_rating = v\<rparr>, set_rating k (int_value v) tbl))"
  by (auto simp: rate_response_def split: option.splits)

lemma rate_response_integer:
  "data_log_id data = Some k \<Longrightarrow> data_rating data = Some (PInt i) \<Longrightarrow> db_ok \<Longrightarrow>
   rate_response db_ok (Some data) tbl =
     (if i < 1 \<or> 5 < i then (Failure 400, tbl)
      else case select_by_id tbl k of
             None \<Rightarrow> (Failure 404, tbl)
           | Some e \<Rightarrow> (Success \<lparr>rated_log_id = k, rated_rating = PInt i\<rparr>, set_rating k i tbl))"
  by (auto simp: rate_response_def split: option.splits)

text \<open>
  Claim C6 says that a rating that is not an integer in 1..5 is refused with the
  validation error 400 and leaves the record unchanged. The route tests
  \<open>isinstance(rating, int)\<close>, and a Python \<open>bool\<close> is an \<open>int\<close>: for the JSON value
  \<open>true\<close>, which is not an integer, the test passes, \<open>True < 1\<close> and \<open>True > 5\<close> are
  false, and the route answers 200, stores the rating 1 in the record and returns
  \<open>true\<close> as the rating. (For a JSON integer the route does what the claim says, see
  \<open>rate_response_integer\<close>.)
\<close>

theorem rate_response_accepts_true:
  "rate_response True (Some (demo_rate 1 (PBool True))) [demo_row 1 1 None]
     = (Success \<lparr>rated_log_id = 1, rated_rating = PBool True\<rparr>, [demo_row 1 1 (Some 1)])"
  by (simp add: rate_response_def demo_rate_def demo_row_def select_by_id_def set_rating_def)

theorem rate_response_accepts_true_witness:
  "fst (rate_response True (Some (demo_rate 1 (PBool True))) [demo_row 1 1 None])
     = Success \<lparr>rated_log_id = 1, rated_rating = PBool True\<rparr>
   \<and> snd (rate_response True (Some (demo_rate 1 (PBool True))) [demo_row 1 1 None])
     = [demo_row 1 1 (Some 1)]"
  using rate_response_accepts_true by simp

text \<open>
  Claim C10 says that a rating that is not an integer in 1..5, sent with an id that
  names no record, is answered with the validation error 400 and never with 404. For
  the JSON value \<open>true\<close> the range check of the route passes (the same slip as under
  claim C6), the lookup comes next, and the answer is the not-found error 404.
\<close>

theorem rate_response_true_unknown_id:
  "select_by_id [demo_row 1 1 None] 7 = None
   \<and> rate_response True (Some (demo_rate 7 (PBool True))) [demo_row 1 1 None]
       = (Failure 404, [demo_row 1 1 None])"
  by (simp add: rate_response_def demo_rate_def demo_row_def select_by_id_def)

theorem rate_response_true_unknown_id_witness:
  "fst (rate_response True (Some (demo_rate 7 (PBool True))) [demo_row 1 1 None]) = Failure 404"
  using rate_response_true_unknown_id by simp

lemma to_double_zero: "to_double 0 = 0"
  by (simp add: to_double_def)

lemma py_round_zero: "py_round 0 n = 0"
  by (simp add: py_round_def round_half_even_def to_double_zero)

lemma get_stats_empty:
  "get_stats avg_real [] =
     Success \<lparr>total_interactions = 0, rated_interactions = 0, average_rating = 0,
              resolved_count = 0, resolution_rate = 0, average_response_time = 0,
              intent_distribution = []\<rparr>"
  by (simp add: get_stats_def sql_count_def sql_avg_int_def sql_avg_real_def present_def
        or_zero_def group_count_def json_keys_ok_def py_round_zero)

lemma intent_keys: "map fst (group_count tbl) = remdups (map intent tbl)"
  by (simp add: group_count_def comp_def)

lemma get_stats_rate:
  assumes "json_keys_ok (remdups (map intent tbl))"
  shows "\<exists>s. get_stats avg_real tbl = Success s
       \<and> total_interactions s = int (length tbl)
       \<and> resolved_count s = int (length (filter (\<lambda>r. resolved r = 1) tbl))
       \<and> resolution_rate s =
           (if 0 < total_interactions s
            then py_round (float_mul (to_double (of_int (resolved_count s)
                                                 / of_int (total_interactions s))) 100) 2
            else 0)"
proof (cases "tbl = []")
  case True
  then show ?thesis by (simp add: get_stats_empty)
next
  case False
  with assms show ?thesis
    by (simp add: get_stats_def sql_count_def truediv_def Let_def intent_keys)
qed

text \<open>
  Claim C8, as the code has it. On the empty table the aggregator answers with total 0,
  rated count 0, mean rating 0, resolved count 0, resolution percentage 0 and mean
  response time 0, and no division by zero arises. On every table whose intents can
  be written as the keys of one JSON object, the aggregator answers, and the
  percentage it reports is \<open>resolved_count / total * 100\<close>, computed in floating
  point and rounded to two decimals, when the total is positive, and 0 when it is 0.
\<close>

theorem get_stats_empty_and_rate:
  "get_stats avg_real [] =
     Success \<lparr>total_interactions = 0, rated_interactions = 0, average_rating = 0,
              resolved_count = 0, resolution_rate = 0, average_response_time = 0,
              intent_distribution = []\<rparr>
   \<and> (json_keys_ok (remdups (map intent tbl)) \<longrightarrow>
        (\<exists>s. get_stats avg_real tbl = Success s
           \<and> total_interactions s = int (length tbl)
           \<and> resolved_count s = int (length (filter (\<lambda>r. resolved r = 1) tbl))
           \<and> resolution_rate s =
               (if 0 < total_interactions s
                then py_round (float_mul (to_double (of_int (resolved_count s)
                                                     / of_int (total_interactions s))) 100) 2
                else 0)))"
  using get_stats_empty [of avg_real] get_stats_rate [of tbl avg_real] by blast

lemma third_percent:
  "float_mul (to_double (1 / 3)) 100 = 2345624805922133 / 70368744177664"
  "py_round (2345624805922133 / 70368744177664) 2 = 2345390243441541 / 70368744177664"
  "py_round (naive_mean [1 / 2, 1 / 2, 1 / 2]) 3 = 1 / 2"
  by code_simp+

lemma demo_table_keys: "json_keys_ok (remdups (map intent demo_table))"
  by (simp add: json_keys_ok_def demo_table_def demo_row_def)

lemma demo_table_stats:
  "get_stats naive_mean demo_table =
     Success \<lparr>total_interactions = 3, rated_interactions = 0, average_rating = 0,
              resolved_count = 1, resolution_rate = 2345390243441541 / 70368744177664,
              average_response_time = 1 / 2,
              intent_distribution = [(Text (ascii ''greeting''), 3)]\<rparr>"
  by (simp add: get_stats_def demo_table_def demo_row_def sql_count_def sql_avg_int_def
        sql_avg_real_def present_def or_zero_def group_count_def json_keys_ok_def
        truediv_def Let_def py_round_zero third_percent)

theorem get_stats_empty_and_rate_witness:
  "json_keys_ok (remdups (map intent demo_table))
   \<and> (\<exists>s. get_stats naive_mean demo_table = Success s
          \<and> total_interactions s = 3 \<and> resolved_count s = 1
          \<and> resolution_rate s = py_round (float_mul (to_double (1 / 3)) 100) 2)"
proof -
  from get_stats_empty_and_rate [of naive_mean demo_table] demo_table_keys
  obtain s where s: "get_stats naive_mean demo_table = Success s"
    "total_interactions s = int (length demo_table)"
    "resolved_count s = int (length (filter (\<lambda>r. resolved r = 1) demo_table))"
    "resolution_rate s =
       (if 0 < total_interactions s
        then py_round (float_mul (to_double (of_int (resolved_count s)
                                             / of_int (total_interactions s))) 100) 2
        else 0)"
    by blast
  have "total_interactions s = 3" "resolved_count s = 1"
    using s(2,3) by (simp_all add: demo_table_def demo_row_def)
  with s(1,4) demo_table_keys show ?thesis by auto
qed

text \<open>
  The percentage reported is not \<open>resolved_count / total * 100\<close>: with one row resolved
  out of three the aggregator reports the double 33.33, which is neither 100/3 nor the
  double that \<open>1 / 3 * 100\<close> is in floating point.
\<close>

theorem get_stats_rate_counterexample:
  "get_stats naive_mean demo_table =
     Success \<lparr>total_interactions = 3, rated_interactions = 0, average_rating = 0,
              resolved_count = 1, resolution_rate = 2345390243441541 / 70368744177664,
              average_response_time = 1 / 2,
              intent_distribution = [(Text (ascii ''greeting''), 3)]\<rparr>
   \<and> (2345390243441541 / 70368744177664 :: rat) \<noteq> 1 / 3 * 100
   \<and> (2345390243441541 / 70368744177664 :: rat) \<noteq> float_mul (to_double (1 / 3)) 100"
  using demo_table_stats by (simp add: third_percent)

text \<open>
  Under claim C8 the route also has a case of its own: with a row whose intent is NULL
  beside a row with an intent, \<open>jsonify\<close> cannot sort the keys of
  \<open>intent_distribution\<close> and the route answers 500.
\<close>

lemma get_stats_mixed_intents: "get_stats avg_real mixed_table = Failure 500"
  by (simp add: get_stats_def mixed_table_def demo_row_def sql_count_def group_count_def
        json_keys_ok_def truediv_def Let_def)

section \<open>Properties of the reconciler\<close>

lemma sync_csv_to_db_eq: "sync_csv_to_db env csv tbl = csv_to_db env csv tbl"
  by (simp add: sync_csv_to_db_def csv_to_db_def)

lemma reconcile_failed: "\<not> fst (reconcile env df tbl) \<Longrightarrow> snd (reconcile env df tbl) = tbl"
  by (auto simp: reconcile_def Let_def split: if_splits sum.splits)

lemma reconcile_no_connection: "\<not> connect_ok env \<Longrightarrow> reconcile env df tbl = (False, tbl)"
  by (simp add: reconcile_def)

lemma csv_to_db_failed:
  "\<not> fst (csv_to_db env csv tbl) \<Longrightarrow> snd (csv_to_db env csv tbl) = tbl"
  by (cases csv) (auto simp: csv_to_db_def intro: reconcile_failed)

lemma csv_to_db_error:
  "csv = Malformed \<or> \<not> connect_ok env \<Longrightarrow> csv_to_db env csv tbl = (False, tbl)"
  by (cases csv) (auto simp: csv_to_db_def reconcile_no_connection)

lemma upsert_prepare_fails:
  "prepare_data env df row = Inl e \<Longrightarrow> upsert env df tbl row = Inl e"
  by (simp add: upsert_def)

lemma upsert_all_fails:
  "row \<in> set rs \<Longrightarrow> prepare_data env df row = Inl e \<Longrightarrow> \<exists>e'. upsert_all env df tbl rs = Inl e'"
proof (induction rs arbitrary: tbl)
  case Nil
  then show ?case by simp
next
  case (Cons r rs)
  show ?case
  proof (cases "upsert env df tbl r")
    case (Inl e')
    then show ?thesis by simp
  next
    case (Inr tbl')
    with Cons.prems have "row \<in> set rs"
      by (auto simp: upsert_prepare_fails)
    from Cons.IH [OF this Cons.prems(2), of tbl'] Inr show ?thesis by simp
  qed
qed

lemma csv_to_db_row_error:
  assumes "\<not> df_empty df" "row \<in> set (rows df)" "prepare_data env df row = Inl e"
  shows "csv_to_db env (Frame df) tbl = (False, tbl)"
proof -
  have fails: "\<exists>e'. upsert_all env df t (rows df) = Inl e'" for t
    using upsert_all_fails [OF assms(2,3)] .
  show ?thesis
  proof (cases "connect_ok env")
    case False
    then show ?thesis by (simp add: csv_to_db_def reconcile_no_connection)
  next
    case True
    define tbl1 where "tbl1 =
      (if filter (\<lambda>i. \<not> list_ex (\<lambda>v. cell_eq_int v i) (csv_ids df)) (remdups (ids tbl)) \<noteq> []
       then filter (\<lambda>r. log_id r \<notin> set (filter (\<lambda>i. \<not> list_ex (\<lambda>v. cell_eq_int v i) (csv_ids df))
                                              (remdups (ids tbl)))) tbl
       else tbl)"
    obtain e' where "upsert_all env df tbl1 (rows df) = Inl e'"
      using fails [of tbl1] by blast
    then show ?thesis
      using assms(1) True
      by (simp add: csv_to_db_def reconcile_def Let_def tbl1_def [symmetric])
  qed
qed

text \<open>
  Claim C3. For every CSV file and table, a run of the reconciliation that meets an
  error has no partial effect: whenever the run reports failure (it returns \<open>False\<close>;
  no exception leaves the function), the table afterwards is the table before. A file
  that cannot be parsed, a connection that cannot be opened, and a row of the file whose
  values cannot be converted each make the run report failure with the table unchanged,
  also when rows before the bad one were already written in the transaction. The same
  holds of the copy of the function in auto\_sync.py.
\<close>

theorem csv_to_db_no_partial_commit:
  "(fst (csv_to_db env csv tbl) = False \<longrightarrow> snd (csv_to_db env csv tbl) = tbl)
   \<and> (csv = Malformed \<or> \<not> connect_ok env \<longrightarrow> csv_to_db env csv tbl = (False, tbl))
   \<and> (\<not> df_empty df \<and> row \<in> set (rows df) \<and> prepare_data env df row = Inl e \<longrightarrow>
        csv_to_db env (Frame df) tbl = (False, tbl))
   \<and> sync_csv_to_db env csv tbl = csv_to_db env csv tbl"
  using csv_to_db_failed [of env csv tbl] csv_to_db_error [of csv env tbl]
    csv_to_db_row_error [of df row env e tbl] sync_csv_to_db_eq [of env csv tbl]
  by blast

lemma prepare_bad_row:
  "prepare_data python bad_frame (demo_cells 2 (CStr abc)) = Inl ValueError"
  by (simp add: prepare_data_def bad_frame_def demo_frame_def demo_cells_def row_get_def
        coerce_resolved_def coerce_rating_def notna_def python_def decimal_int_of_str_def
        strip_def is_space_def split_sign_def abc_def is_digit_def)

theorem csv_to_db_no_partial_commit_witness:
  "fst (csv_to_db python (Frame bad_frame) demo_table) = False
   \<and> snd (csv_to_db python (Frame bad_frame) demo_table) = demo_table
   \<and> csv_to_db python Malformed demo_table = (False, demo_table)
   \<and> \<not> df_empty bad_frame \<and> demo_cells 2 (CStr abc) \<in> set (rows bad_frame)
   \<and> prepare_data python bad_frame (demo_cells 2 (CStr abc)) = Inl ValueError"
proof -
  have ne: "\<not> df_empty bad_frame" "demo_cells 2 (CStr abc) \<in> set (rows bad_frame)"
    by (simp_all add: df_empty_def bad_frame_def demo_frame_def)
  note inst = csv_to_db_no_partial_commit
    [where env = python and tbl = demo_table and df = bad_frame
       and row = "demo_cells 2 (CStr abc)" and e = ValueError]
  have run: "csv_to_db python (Frame bad_frame) demo_table = (False, demo_table)"
    using inst [where csv = Malformed] ne prepare_bad_row by blast
  have "csv_to_db python Malformed demo_table = (False, demo_table)"
    using inst [where csv = Malformed] by blast
  moreover have "snd (csv_to_db python (Frame bad_frame) demo_table) = demo_table"
    using inst [where csv = "Frame bad_frame"] run by simp
  ultimately show ?thesis using run ne prepare_bad_row by simp
qed

text \<open>
  Claim C2, as the code has it. For every table, a run on a CSV file that is empty (no
  header at all, or a header and no row) treats the file as zero rows, deletes every
  row of the table and reports success, provided the connection opens. A run on a
  missing file reports failure and leaves the table as it was.
\<close>

theorem csv_to_db_empty_or_missing:
  "(connect_ok env \<longrightarrow> csv_to_db env Empty_Data tbl = (True, []))
   \<and> (connect_ok env \<and> df_empty df \<longrightarrow> csv_to_db env (Frame df) tbl = (True, []))
   \<and> csv_to_db env Missing tbl = (False, tbl)"
  by (simp add: csv_to_db_def reconcile_def empty_frame_def df_empty_def)

theorem csv_to_db_empty_or_missing_witness:
  "connect_ok python \<and> df_empty (demo_frame [])
   \<and> csv_to_db python Empty_Data demo_table = (True, [])
   \<and> csv_to_db python (Frame (demo_frame [])) demo_table = (True, [])
   \<and> csv_to_db python Missing demo_table = (False, demo_table)"
proof -
  have hyp: "connect_ok python" "df_empty (demo_frame [])"
    by (simp_all add: python_def df_empty_def demo_frame_def)
  with csv_to_db_empty_or_missing
         [where env = python and tbl = demo_table and df = "demo_frame []"]
  show ?thesis by blast
qed

text \<open>
  A missing file does not clear the table: the run on it returns \<open>False\<close> and the
  three rows of the table are still there.
\<close>

theorem csv_to_db_missing_counterexample:
  "csv_to_db python Missing demo_table = (False, demo_table) \<and> length demo_table = 3
   \<and> snd (csv_to_db python Missing demo_table) \<noteq> []"
  by (simp add: csv_to_db_def demo_table_def)

subsection \<open>A successful run makes the table the snapshot\<close>



lemma log_id_stored_row [simp]: "log_id (stored_row env k d) = k"
  by (simp add: stored_row_def sql_insert_def)




















lemma last_filter_Cons:
  "last (filter P (r # rs)) = (if filter P rs = [] then (if P r then r else last []) else last (filter P rs))"
  by simp













end
